theory Spec2Isabelle
  imports Main "HOL-Library.AList"
begin

section \<open>JavaScript values\<close>

text \<open>
  The functions of \<^verbatim>\<open>src/utils.ts\<close> inspect their arguments structurally
  (\<^verbatim>\<open>typeof\<close>, \<^verbatim>\<open>Object.keys\<close>, \<^verbatim>\<open>"to" in value\<close>, object spread), so
  values are modelled as untyped JavaScript data. An object is the list of its own
  enumerable properties in the order in which JavaScript enumerates them; property names
  of one object are pairwise distinct. The model has no \<^verbatim>\<open>null\<close>, booleans or functions:
  none occurs in the types \<^verbatim>\<open>LayerCommand\<close> and \<^verbatim>\<open>HyperKeySublayer\<close>.
\<close>

datatype jsval =
    Undefined
  | Str string
  | Num int
  | Arr "jsval list"
  | Obj "(string \<times> jsval) list"

datatype error = TypeError

type_synonym props = "(string \<times> jsval) list"

text \<open>Decimal notation of an array index, the property name of an array element.\<close>

fun decimal :: "nat \<Rightarrow> string" where
  "decimal n =
     (if n < 10 then [''0123456789'' ! n]
      else decimal (n div 10) @ [''0123456789'' ! (n mod 10)])"

declare decimal.simps [simp del]

definition indexed :: "'a list \<Rightarrow> (string \<times> 'a) list" where
  "indexed xs = zip (map decimal [0..<length xs]) xs"

text \<open>
  The own enumerable string-keyed properties of a value. This is what an object spread
  \<^verbatim>\<open>{...v}\<close> copies: nothing for \<^verbatim>\<open>undefined\<close> and for a number, the indexed
  elements of an array, the indexed characters of a string.
\<close>

fun own_props :: "jsval \<Rightarrow> props" where
  "own_props (Obj ps) = ps"
| "own_props (Arr xs) = indexed xs"
| "own_props (Str s) = indexed (map (\<lambda>c. Str [c]) s)"
| "own_props (Num n) = []"
| "own_props Undefined = []"

fun typeof :: "jsval \<Rightarrow> string" where
  "typeof Undefined = ''undefined''"
| "typeof (Str s) = ''string''"
| "typeof (Num n) = ''number''"
| "typeof (Arr xs) = ''object''"
| "typeof (Obj ps) = ''object''"

text \<open>\<^verbatim>\<open>Object.keys(v)\<close> throws a TypeError on \<^verbatim>\<open>undefined\<close>.\<close>

fun Object_keys :: "jsval \<Rightarrow> error + string list" where
  "Object_keys Undefined = Inl TypeError"
| "Object_keys v = Inr (map fst (own_props v))"

text \<open>
  \<^verbatim>\<open>v[k]\<close>. The source reads a property in two places only, \<^verbatim>\<open>subLayers[sublayer_key]\<close>
  and \<^verbatim>\<open>commands[command_key]\<close>, both on a value that has been handed to
  \<^verbatim>\<open>Object.keys\<close> before and with a key that \<^verbatim>\<open>Object.keys\<close> returned; inherited and
  non-enumerable properties are never asked for.
\<close>

definition get_prop :: "jsval \<Rightarrow> string \<Rightarrow> jsval" where
  "get_prop v k = (case map_of (own_props v) k of Some x \<Rightarrow> x | None \<Rightarrow> Undefined)"

text \<open>
  \<^verbatim>\<open>"to" in v\<close>. The operator throws a TypeError when its right operand is not an
  object; neither \<^verbatim>\<open>Object.prototype\<close> nor \<^verbatim>\<open>Array.prototype\<close> has a property
  named \<^verbatim>\<open>to\<close>.
\<close>

fun has_to :: "jsval \<Rightarrow> error + bool" where
  "has_to (Obj ps) = Inr (''to'' \<in> set (map fst ps))"
| "has_to (Arr xs) = Inr False"
| "has_to v = Inl TypeError"

text \<open>
  \<^verbatim>\<open>Array.prototype.filter\<close> and \<^verbatim>\<open>Array.prototype.map\<close> with a callback that may
  throw: elements are visited from left to right and the first exception is the result.
\<close>

fun Array_filter :: "('a \<Rightarrow> error + bool) \<Rightarrow> 'a list \<Rightarrow> error + 'a list" where
  "Array_filter p [] = Inr []"
| "Array_filter p (x # xs) =
     (case p x of
        Inl e \<Rightarrow> Inl e
      | Inr b \<Rightarrow>
          (case Array_filter p xs of
             Inl e \<Rightarrow> Inl e
           | Inr ys \<Rightarrow> Inr (if b then x # ys else ys)))"

fun Array_map :: "('a \<Rightarrow> error + 'b) \<Rightarrow> 'a list \<Rightarrow> error + 'b list" where
  "Array_map f [] = Inr []"
| "Array_map f (x # xs) =
     (case f x of
        Inl e \<Rightarrow> Inl e
      | Inr y \<Rightarrow>
          (case Array_map f xs of
             Inl e \<Rightarrow> Inl e
           | Inr ys \<Rightarrow> Inr (y # ys)))"

section \<open>The sublayer compiler\<close>

definition generateSubLayerVariableName :: "string \<Rightarrow> string" where
  "generateSubLayerVariableName key = ''hyper_sublayer_'' @ key"

text \<open>The object literals that occur several times in the source.\<close>

definition variable_if :: "string \<Rightarrow> int \<Rightarrow> jsval" where
  "variable_if name val =
     Obj [(''type'', Str ''variable_if''), (''name'', Str name), (''value'', Num val)]"

definition set_variable :: "string \<Rightarrow> int \<Rightarrow> jsval" where
  "set_variable name val =
     Obj [(''set_variable'', Obj [(''name'', Str name), (''value'', Num val)])]"

definition from_any :: "string \<Rightarrow> jsval" where
  "from_any key_code =
     Obj [(''key_code'', Str key_code),
          (''modifiers'', Obj [(''optional'', Arr [Str ''any''])])]"

text \<open>The first element of the array returned by \<^verbatim>\<open>createHyperSubLayer\<close>.\<close>

definition toggle_manipulator :: "string \<Rightarrow> string list \<Rightarrow> jsval" where
  "toggle_manipulator sublayer_key allSubLayerVariables =
     (let subLayerVariableName = generateSubLayerVariableName sublayer_key in
      Obj [(''description'', Str (''Toggle Hyper sublayer '' @ sublayer_key)),
           (''type'', Str ''basic''),
           (''from'', from_any sublayer_key),
           (''to_if_alone'',
              Arr [Obj [(''key_code'', Str sublayer_key),
                        (''modifiers'',
                           Arr [Str ''left_shift'', Str ''left_command'',
                                Str ''left_control'', Str ''left_option''])]]),
           (''to_after_key_up'', Arr [set_variable subLayerVariableName 0]),
           (''to'', Arr [set_variable subLayerVariableName 1]),
           (''conditions'',
              Arr (map (\<lambda>subLayerVariable. variable_if subLayerVariable 0)
                     (filter (\<lambda>subLayerVariable. subLayerVariable \<noteq> subLayerVariableName)
                        allSubLayerVariables)
                   @ [variable_if ''hyper'' 1]))])"

text \<open>
  The callback that builds the manipulator of one command key: the spread of
  \<^verbatim>\<open>commands[command_key]\<close>, then \<^verbatim>\<open>type\<close>, \<^verbatim>\<open>from\<close> and \<^verbatim>\<open>conditions\<close>, each
  replacing a property of that name or added after the others.
\<close>

definition command_manipulator :: "string \<Rightarrow> jsval \<Rightarrow> string \<Rightarrow> jsval" where
  "command_manipulator subLayerVariableName commands command_key =
     Obj (AList.update ''conditions'' (Arr [variable_if subLayerVariableName 1])
           (AList.update ''from'' (from_any command_key)
             (AList.update ''type'' (Str ''basic'')
               (own_props (get_prop commands command_key)))))"

definition createHyperSubLayer :: "string \<Rightarrow> jsval \<Rightarrow> string list \<Rightarrow> error + jsval list" where
  "createHyperSubLayer sublayer_key commands allSubLayerVariables =
     (let subLayerVariableName = generateSubLayerVariableName sublayer_key in
      case Object_keys commands of
        Inl e \<Rightarrow> Inl e
      | Inr command_keys \<Rightarrow>
          Inr (toggle_manipulator sublayer_key allSubLayerVariables
               # map (command_manipulator subLayerVariableName commands) command_keys))"

section \<open>The top-level compiler\<close>

text \<open>The callback of the \<^verbatim>\<open>filter\<close> that selects the keys that get a state variable.\<close>

definition is_sublayer_key :: "props \<Rightarrow> string \<Rightarrow> error + bool" where
  "is_sublayer_key subLayers sublayer_key =
     (if typeof (get_prop (Obj subLayers) sublayer_key) = ''undefined'' then Inr False
      else if typeof (get_prop (Obj subLayers) sublayer_key) = ''string'' then Inr False
      else
        (case Object_keys (get_prop (Obj subLayers) sublayer_key) of
           Inl e \<Rightarrow> Inl e
         | Inr ks \<Rightarrow>
             if length (filter (\<lambda>k. k \<noteq> ''to'') ks) = 0 then Inr False else Inr True))"

definition allSubLayerVariables :: "props \<Rightarrow> error + string list" where
  "allSubLayerVariables subLayers =
     (case Array_filter (is_sublayer_key subLayers) (map fst subLayers) of
        Inl e \<Rightarrow> Inl e
      | Inr ks \<Rightarrow> Inr (map generateSubLayerVariableName ks))"

text \<open>The manipulator of a direct entry, the only element of its rule.\<close>

definition direct_manipulator :: "string list \<Rightarrow> string \<Rightarrow> jsval \<Rightarrow> jsval" where
  "direct_manipulator vars key val =
     Obj (AList.update ''conditions''
            (Arr (variable_if ''hyper'' 1
                  # map (\<lambda>subLayerVariable. variable_if subLayerVariable 0) vars))
           (AList.update ''from'' (from_any key)
             (AList.update ''type'' (Str ''basic'') (own_props val))))"

text \<open>The callback of the \<^verbatim>\<open>map\<close> over \<^verbatim>\<open>Object.entries(subLayers)\<close>.\<close>

definition compile_entry :: "string list \<Rightarrow> string \<times> jsval \<Rightarrow> error + jsval" where
  "compile_entry vars entry =
     (case entry of (key, val) \<Rightarrow>
        (case has_to val of
           Inl e \<Rightarrow> Inl e
         | Inr True \<Rightarrow>
             Inr (Obj [(''description'', Str (''Hyper Key + '' @ key)),
                       (''manipulators'', Arr [direct_manipulator vars key val])])
         | Inr False \<Rightarrow>
             (case createHyperSubLayer key val vars of
                Inl e \<Rightarrow> Inl e
              | Inr ms \<Rightarrow>
                  Inr (Obj [(''description'',
                               Str (''Hyper Key sublayer '' @ [CHR 0x22] @ key @ [CHR 0x22])),
                            (''manipulators'', Arr ms)]))))"

definition createHyperSubLayers :: "props \<Rightarrow> error + jsval list" where
  "createHyperSubLayers subLayers =
     (case allSubLayerVariables subLayers of
        Inl e \<Rightarrow> Inl e
      | Inr vars \<Rightarrow> Array_map (compile_entry vars) subLayers)"

section \<open>Notions used to state the properties\<close>

text \<open>
  The keys of the registry: those for which the callback of the registry's \<^verbatim>\<open>filter\<close>
  returns \<^verbatim>\<open>true\<close>, in the order of \<^verbatim>\<open>Object.keys(subLayers)\<close>. This is a closed
  form of what \<^verbatim>\<open>allSubLayerVariables\<close> computes (lemma \<open>allSubLayerVariables_eq\<close>),
  not the notion of a genuine sublayer: the filter also accepts a direct action that has a
  key besides \<^verbatim>\<open>to\<close>, such as a \<^verbatim>\<open>description\<close>.
\<close>

definition registry_keys :: "props \<Rightarrow> string list" where
  "registry_keys subLayers =
     filter (\<lambda>k. is_sublayer_key subLayers k = Inr True) (map fst subLayers)"

text \<open>The elements of an array, and the variable names in all guards of a rule.\<close>

definition elements :: "jsval \<Rightarrow> jsval list" where
  "elements v = (case v of Arr xs \<Rightarrow> xs | _ \<Rightarrow> [])"

definition guard_names :: "jsval \<Rightarrow> jsval list" where
  "guard_names rule =
     concat (map (\<lambda>m. map (\<lambda>c. get_prop c ''name'') (elements (get_prop m ''conditions'')))
               (elements (get_prop rule ''manipulators'')))"

text \<open>
  A small configuration: two sublayers \<^verbatim>\<open>o\<close> and \<^verbatim>\<open>w\<close>, a direct binding
  \<^verbatim>\<open>m\<close> and an emptied sublayer \<^verbatim>\<open>x\<close>.
\<close>

definition example_layers :: props where
  "example_layers =
     [(''o'', Obj [(''g'', Obj [(''to'', Arr [Obj [(''shell_command'', Str ''open -a Chrome'')]]),
                               (''description'', Str ''Open Chrome'')])]),
      (''w'', Obj [(''h'', Obj [(''to'', Arr [Obj [(''key_code'', Str ''left_arrow'')]])])]),
      (''m'', Obj [(''to'', Arr [Obj [(''key_code'', Str ''mute'')]])]),
      (''x'', Obj [])]"

section \<open>Arrays and property lookup\<close>

lemma get_prop_Obj: "get_prop (Obj ps) k = (case map_of ps k of Some x \<Rightarrow> x | None \<Rightarrow> Undefined)"
  by (simp add: get_prop_def)

lemma Array_map_Inr:
  "Array_map f xs = Inr ys \<Longrightarrow>
     length ys = length xs \<and> (\<forall>i<length xs. f (xs ! i) = Inr (ys ! i))"
proof (induction xs arbitrary: ys)
  case Nil
  then show ?case by simp
next
  case (Cons x xs)
  from Cons.prems obtain y zs where y: "f x = Inr y" and zs: "Array_map f xs = Inr zs"
    and ys: "ys = y # zs"
    by (auto split: sum.splits)
  from Cons.IH [OF zs] y ys show ?case
    by (auto simp: nth_Cons split: nat.splits)
qed

lemma Array_map_total:
  "(\<And>x. x \<in> set xs \<Longrightarrow> \<exists>y. f x = Inr y) \<Longrightarrow> \<exists>ys. Array_map f xs = Inr ys"
  by (induction xs) (fastforce split: sum.splits)+

lemma Array_filter_total:
  "(\<And>x. x \<in> set xs \<Longrightarrow> \<exists>b. p x = Inr b) \<Longrightarrow>
     Array_filter p xs = Inr (filter (\<lambda>x. p x = Inr True) xs)"
  by (induction xs) (fastforce split: sum.splits)+

lemma is_sublayer_key_total: "\<exists>b. is_sublayer_key subLayers k = Inr b"
  by (cases "get_prop (Obj subLayers) k") (auto simp: is_sublayer_key_def)

lemma allSubLayerVariables_eq:
  "allSubLayerVariables subLayers =
     Inr (map generateSubLayerVariableName (registry_keys subLayers))"
  by (simp add: allSubLayerVariables_def registry_keys_def
      Array_filter_total [OF is_sublayer_key_total])

lemma createHyperSubLayers_eq:
  "createHyperSubLayers subLayers =
     Array_map (compile_entry (map generateSubLayerVariableName (registry_keys subLayers)))
       subLayers"
  by (simp add: createHyperSubLayers_def allSubLayerVariables_eq)

lemma createHyperSubLayers_nth:
  assumes "createHyperSubLayers subLayers = Inr rules" and "i < length subLayers"
  shows "compile_entry (map generateSubLayerVariableName (registry_keys subLayers))
           (subLayers ! i) = Inr (rules ! i)"
  using assms Array_map_Inr [of _ subLayers rules] by (simp add: createHyperSubLayers_eq)

lemma createHyperSubLayers_length:
  "createHyperSubLayers subLayers = Inr rules \<Longrightarrow> length rules = length subLayers"
  using Array_map_Inr [of _ subLayers rules] by (simp add: createHyperSubLayers_eq)


lemma generateSubLayerVariableName_inj [simp]:
  "generateSubLayerVariableName a = generateSubLayerVariableName b \<longleftrightarrow> a = b"
  by (simp add: generateSubLayerVariableName_def)

lemma generateSubLayerVariableName_not_hyper [simp]:
  "generateSubLayerVariableName a \<noteq> ''hyper''"
  "''hyper'' \<noteq> generateSubLayerVariableName a"
  by (simp_all add: generateSubLayerVariableName_def)

lemma variable_if_inj [simp]: "variable_if a x = variable_if b y \<longleftrightarrow> a = b \<and> x = y"
  by (auto simp: variable_if_def)

lemma variable_if_name [simp]: "get_prop (variable_if a x) ''name'' = Str a"
  by (simp add: variable_if_def get_prop_def)

lemma get_prop_toggle_conditions:
  "get_prop (toggle_manipulator key vars) ''conditions'' =
     Arr (map (\<lambda>v. variable_if v 0)
            (filter (\<lambda>v. v \<noteq> generateSubLayerVariableName key) vars)
          @ [variable_if ''hyper'' 1])"
  by (simp add: toggle_manipulator_def get_prop_def Let_def)

lemma get_prop_command_conditions:
  "get_prop (command_manipulator var commands k) ''conditions'' = Arr [variable_if var 1]"
  by (simp add: command_manipulator_def get_prop_def update_conv')


lemma get_prop_command_type:
  "get_prop (command_manipulator var commands k) ''type'' = Str ''basic''"
  by (simp add: command_manipulator_def get_prop_def update_conv')


lemma get_prop_direct_conditions:
  "get_prop (direct_manipulator vars key val) ''conditions'' =
     Arr (variable_if ''hyper'' 1 # map (\<lambda>v. variable_if v 0) vars)"
  by (simp add: direct_manipulator_def get_prop_def update_conv')

lemma get_prop_direct_from:
  "get_prop (direct_manipulator vars key val) ''from'' = from_any key"
  by (simp add: direct_manipulator_def get_prop_def update_conv')

lemma get_prop_direct_type:
  "get_prop (direct_manipulator vars key val) ''type'' = Str ''basic''"
  by (simp add: direct_manipulator_def get_prop_def update_conv')

lemma get_prop_direct_other:
  "p \<noteq> ''type'' \<Longrightarrow> p \<noteq> ''from'' \<Longrightarrow> p \<noteq> ''conditions'' \<Longrightarrow>
     get_prop (direct_manipulator vars key val) p = get_prop val p"
  by (simp add: direct_manipulator_def get_prop_def update_conv')

lemma get_prop_entry:
  "distinct (map fst subLayers) \<Longrightarrow> i < length subLayers \<Longrightarrow> subLayers ! i = (key, val) \<Longrightarrow>
     get_prop (Obj subLayers) key = val"
  by (auto simp: get_prop_def dest: nth_mem)

lemma compile_entry_direct:
  "has_to val = Inr True \<Longrightarrow>
     compile_entry vars (key, val) =
       Inr (Obj [(''description'', Str (''Hyper Key + '' @ key)),
                 (''manipulators'', Arr [direct_manipulator vars key val])])"
  by (simp add: compile_entry_def)

lemma compile_entry_sublayer:
  "has_to val = Inr False \<Longrightarrow>
     compile_entry vars (key, val) =
       Inr (Obj [(''description'', Str (''Hyper Key sublayer '' @ [CHR 0x22] @ key @ [CHR 0x22])),
                 (''manipulators'',
                    Arr (toggle_manipulator key vars
                         # map (command_manipulator (generateSubLayerVariableName key) val)
                             (map fst (own_props val))))])"
  by (cases val) (simp_all add: compile_entry_def createHyperSubLayer_def)

lemma length_filter_neq:
  "distinct xs \<Longrightarrow> x \<in> set xs \<Longrightarrow> length (filter (\<lambda>y. y \<noteq> x) xs) = length xs - 1"
proof (induction xs)
  case Nil
  then show ?case by simp
next
  case (Cons a xs)
  show ?case
  proof (cases "a = x")
    case True
    with Cons.prems have "filter (\<lambda>y. y \<noteq> x) xs = xs"
      by (auto simp: filter_id_conv)
    with True show ?thesis by simp
  next
    case False
    with Cons.prems have "x \<in> set xs" and "distinct xs" by auto
    with Cons.IH have "length (filter (\<lambda>y. y \<noteq> x) xs) = length xs - 1" by simp
    moreover from \<open>x \<in> set xs\<close> have "0 < length xs" by (rule length_pos_if_in_set)
    ultimately show ?thesis using False by simp
  qed
qed

lemma distinct_registry_keys:
  "distinct (map fst subLayers) \<Longrightarrow> distinct (registry_keys subLayers)"
  by (simp add: registry_keys_def)

section \<open>The shape of the emitted rules\<close>

lemma get_prop_toggle_from:
  "get_prop (toggle_manipulator key vars) ''from'' = from_any key"
  by (simp add: toggle_manipulator_def get_prop_def Let_def)

lemma get_prop_rule_manipulators:
  "get_prop (Obj [(''description'', d), (''manipulators'', ms)]) ''manipulators'' = ms"
  by (simp add: get_prop_def)

lemma compile_entry_cases:
  assumes "compile_entry vars (key, val) = Inr rule"
  obtains (direct) "has_to val = Inr True"
  | (sublayer) "has_to val = Inr False"
  using assms by (auto simp: compile_entry_def split: sum.splits bool.splits)

lemma compile_entry_Obj_total: "\<exists>rule. compile_entry vars (key, Obj ps) = Inr rule"
  by (cases "''to'' \<in> set (map fst ps)")
    (simp_all add: compile_entry_direct compile_entry_sublayer)

lemma createHyperSubLayers_total:
  assumes "\<And>key val. (key, val) \<in> set subLayers \<Longrightarrow> \<exists>ps. val = Obj ps"
  shows "\<exists>rules. createHyperSubLayers subLayers = Inr rules"
  unfolding createHyperSubLayers_eq
proof (rule Array_map_total)
  fix x assume "x \<in> set subLayers"
  with assms [of "fst x" "snd x"] obtain ps where "x = (fst x, Obj ps)"
    by (metis prod.collapse)
  then show "\<exists>y. compile_entry (map generateSubLayerVariableName (registry_keys subLayers)) x = Inr y"
    using compile_entry_Obj_total by metis
qed

lemma rule_direct:
  assumes "createHyperSubLayers subLayers = Inr rules"
    and "i < length subLayers"
    and "subLayers ! i = (key, val)"
    and "has_to val = Inr True"
  shows "rules ! i =
     Obj [(''description'', Str (''Hyper Key + '' @ key)),
          (''manipulators'',
             Arr [direct_manipulator (map generateSubLayerVariableName (registry_keys subLayers))
                    key val])]"
proof -
  have "compile_entry (map generateSubLayerVariableName (registry_keys subLayers)) (key, val) =
      Inr (rules ! i)"
    using createHyperSubLayers_nth [OF assms(1,2)] assms(3) by simp
  then show ?thesis
    by (simp add: compile_entry_direct [OF assms(4)])
qed

lemma rule_sublayer:
  assumes "createHyperSubLayers subLayers = Inr rules"
    and "i < length subLayers"
    and "subLayers ! i = (key, val)"
    and "has_to val = Inr False"
  shows "rules ! i =
     Obj [(''description'', Str (''Hyper Key sublayer '' @ [CHR 0x22] @ key @ [CHR 0x22])),
          (''manipulators'',
             Arr (toggle_manipulator key (map generateSubLayerVariableName (registry_keys subLayers))
                  # map (command_manipulator (generateSubLayerVariableName key) val)
                      (map fst (own_props val))))]"
proof -
  have "compile_entry (map generateSubLayerVariableName (registry_keys subLayers)) (key, val) =
      Inr (rules ! i)"
    using createHyperSubLayers_nth [OF assms(1,2)] assms(3) by simp
  then show ?thesis
    by (simp add: compile_entry_sublayer [OF assms(4)])
qed

lemma has_to_cases:
  assumes "createHyperSubLayers subLayers = Inr rules"
    and "i < length subLayers"
    and "subLayers ! i = (key, val)"
  obtains (direct) "has_to val = Inr True" | (sublayer) "has_to val = Inr False"
proof -
  have "compile_entry (map generateSubLayerVariableName (registry_keys subLayers)) (key, val) =
      Inr (rules ! i)"
    using createHyperSubLayers_nth [OF assms(1,2)] assms(3) by simp
  then show thesis
    by (rule compile_entry_cases) (fact direct sublayer)+
qed

lemma guard_names_rule:
  "guard_names (Obj [(''description'', d), (''manipulators'', Arr ms)]) =
     concat (map (\<lambda>m. map (\<lambda>c. get_prop c ''name'') (elements (get_prop m ''conditions''))) ms)"
  by (simp add: guard_names_def get_prop_def elements_def)

lemma guard_names_direct:
  "guard_names (Obj [(''description'', d),
                     (''manipulators'', Arr [direct_manipulator vars key val])]) =
     Str ''hyper'' # map Str vars"
  by (simp add: guard_names_rule get_prop_direct_conditions elements_def comp_def)

lemma guard_names_sublayer:
  "set (guard_names (Obj [(''description'', d),
          (''manipulators'',
             Arr (toggle_manipulator key vars # map (command_manipulator var val) ks))]))
     \<subseteq> insert (Str ''hyper'') (insert (Str var) (Str ` set vars))"
  by (auto simp: guard_names_rule get_prop_toggle_conditions get_prop_command_conditions
      elements_def)

lemma not_in_registry:
  assumes "get_prop (Obj subLayers) key = Obj ps"
    and "filter (\<lambda>k. k \<noteq> ''to'') (map fst ps) = []"
  shows "key \<notin> set (registry_keys subLayers)"
  using assms by (simp add: registry_keys_def is_sublayer_key_def)

section \<open>The example configuration\<close>

lemma example_registry_keys: "registry_keys example_layers = [''o'', ''w'']"
  by (simp add: registry_keys_def example_layers_def is_sublayer_key_def get_prop_def)

lemma example_distinct: "distinct (map fst example_layers)"
  by (simp add: example_layers_def)

lemma example_compiles: "\<exists>rules. createHyperSubLayers example_layers = Inr rules"
  by (rule createHyperSubLayers_total) (auto simp: example_layers_def)

lemma example_registry:
  "allSubLayerVariables example_layers = Inr [''hyper_sublayer_o'', ''hyper_sublayer_w'']"
  by (simp add: allSubLayerVariables_eq example_registry_keys generateSubLayerVariableName_def)

section \<open>Guards of the toggle manipulator\<close>

text \<open>
  Relative to the registry the guards of a toggle are as follows. Take a configuration with
  pairwise distinct keys that compiles, and an entry whose key is in the registry and that
  is compiled on the sublayer path. The first manipulator of its rule is the toggle. Its
  guard list consists of \<^verbatim>\<open>hyper == 1\<close> and of \<^verbatim>\<open>variable == 0\<close> for the variable of
  every other key of the registry; no guard in it names the entry's own state variable; its
  length is the size of the registry, and its elements are pairwise distinct.
\<close>

lemma toggle_guard_registry:
  assumes dist: "distinct (map fst subLayers)"
    and ok: "createHyperSubLayers subLayers = Inr rules"
    and i: "i < length subLayers"
    and entry: "subLayers ! i = (key, val)"
    and member: "key \<in> set (registry_keys subLayers)"
    and sub: "has_to val = Inr False"
  shows "\<exists>ms conds.
      get_prop (rules ! i) ''manipulators'' =
        Arr (toggle_manipulator key
               (map generateSubLayerVariableName (registry_keys subLayers)) # ms) \<and>
      get_prop (toggle_manipulator key
               (map generateSubLayerVariableName (registry_keys subLayers))) ''conditions'' =
        Arr conds \<and>
      variable_if ''hyper'' 1 \<in> set conds \<and>
      (\<forall>other \<in> set (registry_keys subLayers). other \<noteq> key \<longrightarrow>
          variable_if (generateSubLayerVariableName other) 0 \<in> set conds) \<and>
      (\<forall>c \<in> set conds. get_prop c ''name'' \<noteq> Str (generateSubLayerVariableName key)) \<and>
      set conds =
        insert (variable_if ''hyper'' 1)
          ((\<lambda>other. variable_if (generateSubLayerVariableName other) 0)
             ` (set (registry_keys subLayers) - {key})) \<and>
      length conds = 1 + length (registry_keys subLayers) - 1 \<and>
      distinct conds"
proof -
  let ?vars = "map generateSubLayerVariableName (registry_keys subLayers)"
  let ?own = "generateSubLayerVariableName key"
  let ?conds = "map (\<lambda>v. variable_if v 0) (filter (\<lambda>v. v \<noteq> ?own) ?vars)
                @ [variable_if ''hyper'' 1]"
  let ?ms = "map (command_manipulator ?own val) (map fst (own_props val))"
  have rule: "get_prop (rules ! i) ''manipulators'' = Arr (toggle_manipulator key ?vars # ?ms)"
    by (simp add: rule_sublayer [OF ok i entry sub] get_prop_rule_manipulators)
  have conds: "get_prop (toggle_manipulator key ?vars) ''conditions'' = Arr ?conds"
    by (rule get_prop_toggle_conditions)
  have hyper: "variable_if ''hyper'' 1 \<in> set ?conds" by simp
  have others: "\<forall>other \<in> set (registry_keys subLayers). other \<noteq> key \<longrightarrow>
      variable_if (generateSubLayerVariableName other) 0 \<in> set ?conds"
    by auto
  have own: "\<forall>c \<in> set ?conds. get_prop c ''name'' \<noteq> Str ?own"
    by auto
  have dvars: "distinct ?vars"
    using distinct_registry_keys [OF dist] by (simp add: distinct_map inj_on_def)
  have "?own \<in> set ?vars" using member by simp
  with dvars have "length (filter (\<lambda>v. v \<noteq> ?own) ?vars) = length ?vars - 1"
    by (rule length_filter_neq)
  moreover from member have "0 < length (registry_keys subLayers)"
    by (rule length_pos_if_in_set)
  ultimately have len: "length ?conds = 1 + length (registry_keys subLayers) - 1" by simp
  have dc: "distinct ?conds"
    using dvars by (auto simp: distinct_map inj_on_def)
  have exact: "set ?conds =
      insert (variable_if ''hyper'' 1)
        ((\<lambda>other. variable_if (generateSubLayerVariableName other) 0)
           ` (set (registry_keys subLayers) - {key}))"
    by auto
  from rule conds hyper others own exact len dc show ?thesis by blast
qed

text \<open>
  C1. The registry holds a state variable for a direct action that has a
  \<^verbatim>\<open>description\<close>, and the toggle of a sublayer is guarded by every variable of the
  registry but its own. In the configuration \<^verbatim>\<open>{o: {g: ...}, m: open("mail.txt")}\<close> the
  only sublayer is \<^verbatim>\<open>o\<close>, and \<^verbatim>\<open>m\<close> is compiled as a direct action. The toggle of
  \<^verbatim>\<open>o\<close> has two guards, \<^verbatim>\<open>hyper_sublayer_m == 0\<close> and \<^verbatim>\<open>hyper == 1\<close>, where
  \<open>1 + (number of genuine sublayers) - 1\<close> is one: the first of them is a guard on the
  variable of an entry that is no sublayer.
\<close>

theorem toggle_guard_counts_described_action:
  "createHyperSubLayers
     [(''o'', Obj [(''g'', Obj [(''to'', Arr [Obj [(''key_code'', Str ''a'')]])])]),
      (''m'', Obj [(''to'', Arr [Obj [(''shell_command'', Str ''open mail.txt'')]]),
                   (''description'', Str ''Open mail.txt'')])] =
     Inr [Obj [(''description'', Str (''Hyper Key sublayer '' @ [CHR 0x22] @ ''o'' @ [CHR 0x22])),
               (''manipulators'',
                  Arr [toggle_manipulator ''o'' [''hyper_sublayer_o'', ''hyper_sublayer_m''],
                       command_manipulator ''hyper_sublayer_o''
                         (Obj [(''g'', Obj [(''to'', Arr [Obj [(''key_code'', Str ''a'')]])])])
                         ''g''])],
          Obj [(''description'', Str ''Hyper Key + m''),
               (''manipulators'',
                  Arr [direct_manipulator [''hyper_sublayer_o'', ''hyper_sublayer_m''] ''m''
                         (Obj [(''to'', Arr [Obj [(''shell_command'', Str ''open mail.txt'')]]),
                               (''description'', Str ''Open mail.txt'')])])]]
   \<and> get_prop (toggle_manipulator ''o'' [''hyper_sublayer_o'', ''hyper_sublayer_m''])
       ''conditions'' =
     Arr [Obj [(''type'', Str ''variable_if''), (''name'', Str ''hyper_sublayer_m''),
               (''value'', Num 0)],
          Obj [(''type'', Str ''variable_if''), (''name'', Str ''hyper''), (''value'', Num 1)]]"
  by (simp add: createHyperSubLayers_def allSubLayerVariables_def is_sublayer_key_def
      get_prop_def compile_entry_def createHyperSubLayer_def generateSubLayerVariableName_def
      toggle_manipulator_def variable_if_def Let_def)

section \<open>The variable registry\<close>

text \<open>
  C2. The filter of the registry drops the key \<^verbatim>\<open>to\<close> before it counts the keys of an
  entry, so a direct action \<^verbatim>\<open>{to: [...]}\<close> gets no state variable. A direct action
  that also has a \<^verbatim>\<open>description\<close>, as the helpers \<^verbatim>\<open>open\<close>, \<^verbatim>\<open>app\<close>, \<^verbatim>\<open>shell\<close>
  and \<^verbatim>\<open>rectangle\<close> build it, still has one key left after \<^verbatim>\<open>to\<close> is dropped and is
  given a state variable: for the configuration \<^verbatim>\<open>{m: open("mail.txt")}\<close> the registry
  is \<^verbatim>\<open>["hyper_sublayer_m"]\<close>, and it is empty for the same action without description.
\<close>

theorem registry_admits_described_action:
  "allSubLayerVariables
     [(''m'', Obj [(''to'', Arr [Obj [(''shell_command'', Str ''open mail.txt'')]]),
                   (''description'', Str ''Open mail.txt'')])]
     = Inr [''hyper_sublayer_m'']
   \<and> allSubLayerVariables
     [(''m'', Obj [(''to'', Arr [Obj [(''shell_command'', Str ''open mail.txt'')]])])]
     = Inr []"
  by (simp add: allSubLayerVariables_def is_sublayer_key_def get_prop_def
      generateSubLayerVariableName_def)

section \<open>Entries without command keys\<close>

text \<open>
  C3, as the code has it. Take a configuration with pairwise distinct keys that compiles,
  and an entry whose value is an object with no key other than \<^verbatim>\<open>to\<close>. The entry
  contributes no state variable to the registry, and the name of its state variable occurs
  in no guard of the rule of any other entry. If the object has the key \<^verbatim>\<open>to\<close>, the
  entry is compiled on the direct path: its rule holds the single direct manipulator. If it
  has not, the object is empty and the entry is compiled on the sublayer path: its rule
  holds the toggle manipulator and nothing else.
\<close>

theorem degenerate_entry:
  assumes dist: "distinct (map fst subLayers)"
    and ok: "createHyperSubLayers subLayers = Inr rules"
    and i: "i < length subLayers"
    and entry: "subLayers ! i = (key, Obj ps)"
    and zero: "filter (\<lambda>k. k \<noteq> ''to'') (map fst ps) = []"
  shows "\<exists>vars.
      allSubLayerVariables subLayers = Inr vars \<and>
      generateSubLayerVariableName key \<notin> set vars \<and>
      (\<forall>j < length rules. j \<noteq> i \<longrightarrow>
          Str (generateSubLayerVariableName key) \<notin> set (guard_names (rules ! j))) \<and>
      (''to'' \<in> set (map fst ps) \<longrightarrow>
          rules ! i = Obj [(''description'', Str (''Hyper Key + '' @ key)),
                           (''manipulators'', Arr [direct_manipulator vars key (Obj ps)])]) \<and>
      (''to'' \<notin> set (map fst ps) \<longrightarrow>
          rules ! i =
            Obj [(''description'', Str (''Hyper Key sublayer '' @ [CHR 0x22] @ key @ [CHR 0x22])),
                 (''manipulators'', Arr [toggle_manipulator key vars])])"
proof -
  let ?vars = "map generateSubLayerVariableName (registry_keys subLayers)"
  let ?own = "generateSubLayerVariableName key"
  have len: "length rules = length subLayers"
    using ok by (rule createHyperSubLayers_length)
  have "get_prop (Obj subLayers) key = Obj ps"
    using dist i entry by (rule get_prop_entry)
  then have "key \<notin> set (registry_keys subLayers)"
    using zero by (rule not_in_registry)
  then have own: "?own \<notin> set ?vars" by auto
  have others: "Str ?own \<notin> set (guard_names (rules ! j))"
    if j: "j < length rules" and ji: "j \<noteq> i" for j
  proof -
    from j len have j': "j < length subLayers" by simp
    obtain kj vj where ej: "subLayers ! j = (kj, vj)" by (cases "subLayers ! j")
    have "map fst subLayers ! j \<noteq> map fst subLayers ! i"
      using nth_eq_iff_index_eq [OF dist, of j i] i j' ji by simp
    with i j' ej entry have kj: "kj \<noteq> key" by simp
    from ok j' ej show ?thesis
    proof (cases rule: has_to_cases)
      case direct
      show ?thesis
        using own by (auto simp: rule_direct [OF ok j' ej direct] guard_names_direct)
    next
      case sublayer
      have "Str ?own \<notin> insert (Str ''hyper'')
          (insert (Str (generateSubLayerVariableName kj)) (Str ` set ?vars))"
        using own kj by auto
      then show ?thesis
        unfolding rule_sublayer [OF ok j' ej sublayer]
        using guard_names_sublayer by blast
    qed
  qed
  have direct: "rules ! i = Obj [(''description'', Str (''Hyper Key + '' @ key)),
                           (''manipulators'', Arr [direct_manipulator ?vars key (Obj ps)])]"
    if "''to'' \<in> set (map fst ps)"
    using that by (intro rule_direct [OF ok i entry]) simp
  have sub: "rules ! i =
            Obj [(''description'', Str (''Hyper Key sublayer '' @ [CHR 0x22] @ key @ [CHR 0x22])),
                 (''manipulators'', Arr [toggle_manipulator key ?vars])]"
    if no: "''to'' \<notin> set (map fst ps)"
  proof -
    from zero no have "ps = []"
      by (cases ps) (auto split: if_splits)
    moreover from no have "has_to (Obj ps) = Inr False" by simp
    ultimately show ?thesis
      using rule_sublayer [OF ok i entry] by simp
  qed
  from own others direct sub show ?thesis
    by (auto simp: allSubLayerVariables_eq)
qed

text \<open>
  In the example both cases occur: \<^verbatim>\<open>m\<close> has the key \<^verbatim>\<open>to\<close> only, \<^verbatim>\<open>x\<close> is empty.
\<close>

theorem degenerate_entry_witness:
  "\<exists>rules.
     createHyperSubLayers example_layers = Inr rules \<and>
     allSubLayerVariables example_layers = Inr [''hyper_sublayer_o'', ''hyper_sublayer_w''] \<and>
     Str ''hyper_sublayer_x'' \<notin> set (guard_names (rules ! 0)) \<and>
     Str ''hyper_sublayer_x'' \<notin> set (guard_names (rules ! 1)) \<and>
     Str ''hyper_sublayer_x'' \<notin> set (guard_names (rules ! 2)) \<and>
     Str ''hyper_sublayer_m'' \<notin> set (guard_names (rules ! 0)) \<and>
     rules ! 2 =
       Obj [(''description'', Str ''Hyper Key + m''),
            (''manipulators'',
               Arr [direct_manipulator [''hyper_sublayer_o'', ''hyper_sublayer_w''] ''m''
                      (Obj [(''to'', Arr [Obj [(''key_code'', Str ''mute'')]])])])] \<and>
     rules ! 3 =
       Obj [(''description'', Str (''Hyper Key sublayer '' @ [CHR 0x22] @ ''x'' @ [CHR 0x22])),
            (''manipulators'',
               Arr [toggle_manipulator ''x'' [''hyper_sublayer_o'', ''hyper_sublayer_w'']])]"
proof -
  from example_compiles obtain rules where ok: "createHyperSubLayers example_layers = Inr rules" ..
  have len: "length rules = 4"
    using createHyperSubLayers_length [OF ok] by (simp add: example_layers_def)
  have i2: "2 < length example_layers" and i3: "3 < length example_layers"
    by (simp_all add: example_layers_def)
  have e2: "example_layers ! 2 = (''m'', Obj [(''to'', Arr [Obj [(''key_code'', Str ''mute'')]])])"
    and e3: "example_layers ! 3 = (''x'', Obj [])"
    by (simp_all add: example_layers_def)
  have z2: "filter (\<lambda>k. k \<noteq> ''to'') (map fst [(''to'', Arr [Obj [(''key_code'', Str ''mute'')]])]) = []"
    and z3: "filter (\<lambda>k. k \<noteq> ''to'') (map fst ([] :: props)) = []"
    by simp_all
  from degenerate_entry [OF example_distinct ok i3 e3 z3] len
  have x: "Str ''hyper_sublayer_x'' \<notin> set (guard_names (rules ! 0))"
    "Str ''hyper_sublayer_x'' \<notin> set (guard_names (rules ! 1))"
    "Str ''hyper_sublayer_x'' \<notin> set (guard_names (rules ! 2))"
    "rules ! 3 =
       Obj [(''description'', Str (''Hyper Key sublayer '' @ [CHR 0x22] @ ''x'' @ [CHR 0x22])),
            (''manipulators'',
               Arr [toggle_manipulator ''x'' [''hyper_sublayer_o'', ''hyper_sublayer_w'']])]"
    by (auto simp: example_registry generateSubLayerVariableName_def)
  from degenerate_entry [OF example_distinct ok i2 e2 z2] len
  have m: "Str ''hyper_sublayer_m'' \<notin> set (guard_names (rules ! 0))"
    "rules ! 2 =
       Obj [(''description'', Str ''Hyper Key + m''),
            (''manipulators'',
               Arr [direct_manipulator [''hyper_sublayer_o'', ''hyper_sublayer_w''] ''m''
                      (Obj [(''to'', Arr [Obj [(''key_code'', Str ''mute'')]])])])]"
    by (auto simp: example_registry generateSubLayerVariableName_def)
  from ok x m example_registry show ?thesis by blast
qed

text \<open>
  The empty sublayer \<^verbatim>\<open>{x: {}}\<close> is not compiled on the direct path: its rule is the
  sublayer rule, with a toggle manipulator for \<^verbatim>\<open>x\<close>.
\<close>

theorem degenerate_entry_counterexample:
  "createHyperSubLayers [(''x'', Obj [])] =
     Inr [Obj [(''description'', Str (''Hyper Key sublayer '' @ [CHR 0x22] @ ''x'' @ [CHR 0x22])),
               (''manipulators'', Arr [toggle_manipulator ''x'' []])]]
   \<and> createHyperSubLayers [(''x'', Obj [])] \<noteq>
     Inr [Obj [(''description'', Str (''Hyper Key + '' @ ''x'')),
               (''manipulators'', Arr [direct_manipulator [] ''x'' (Obj [])])]]"
  by (simp add: createHyperSubLayers_def allSubLayerVariables_def is_sublayer_key_def
      get_prop_def compile_entry_def createHyperSubLayer_def)

section \<open>Direct entries\<close>

text \<open>
  Relative to the registry a direct entry is compiled as follows. Take a configuration that
  compiles and an entry whose value has the key \<^verbatim>\<open>to\<close>. There is one rule per entry, and
  the rule at the entry's position is described as \<^verbatim>\<open>Hyper Key + key\<close> and holds exactly
  one manipulator. That manipulator is of type \<^verbatim>\<open>basic\<close>, triggers on the entry's key
  with any optional modifiers, and has the \<^verbatim>\<open>to\<close> and the \<^verbatim>\<open>description\<close> of the
  entry's value. Its guard list contains \<^verbatim>\<open>hyper == 1\<close> and \<^verbatim>\<open>variable == 0\<close> for the
  state variable of every key of the registry, and its length is one more than the size of
  the registry.
\<close>

lemma direct_guard_registry:
  assumes ok: "createHyperSubLayers subLayers = Inr rules"
    and i: "i < length subLayers"
    and entry: "subLayers ! i = (key, val)"
    and direct: "has_to val = Inr True"
  shows "\<exists>m conds.
      length rules = length subLayers \<and>
      rules ! i = Obj [(''description'', Str (''Hyper Key + '' @ key)),
                       (''manipulators'', Arr [m])] \<and>
      get_prop m ''type'' = Str ''basic'' \<and>
      get_prop m ''from'' =
        Obj [(''key_code'', Str key), (''modifiers'', Obj [(''optional'', Arr [Str ''any''])])] \<and>
      get_prop m ''to'' = get_prop val ''to'' \<and>
      get_prop m ''description'' = get_prop val ''description'' \<and>
      get_prop m ''conditions'' = Arr conds \<and>
      variable_if ''hyper'' 1 \<in> set conds \<and>
      (\<forall>k \<in> set (registry_keys subLayers).
          variable_if (generateSubLayerVariableName k) 0 \<in> set conds) \<and>
      length conds = 1 + length (registry_keys subLayers)"
proof -
  let ?vars = "map generateSubLayerVariableName (registry_keys subLayers)"
  let ?m = "direct_manipulator ?vars key val"
  let ?conds = "variable_if ''hyper'' 1 # map (\<lambda>v. variable_if v 0) ?vars"
  have rule: "rules ! i = Obj [(''description'', Str (''Hyper Key + '' @ key)),
                               (''manipulators'', Arr [?m])]"
    using ok i entry direct by (rule rule_direct)
  have len: "length rules = length subLayers"
    using ok by (rule createHyperSubLayers_length)
  have "get_prop ?m ''type'' = Str ''basic''"
    and "get_prop ?m ''from'' =
        Obj [(''key_code'', Str key), (''modifiers'', Obj [(''optional'', Arr [Str ''any''])])]"
    and "get_prop ?m ''to'' = get_prop val ''to''"
    and "get_prop ?m ''description'' = get_prop val ''description''"
    and "get_prop ?m ''conditions'' = Arr ?conds"
    by (simp_all add: get_prop_direct_type get_prop_direct_from get_prop_direct_other
        get_prop_direct_conditions from_any_def)
  moreover have "variable_if ''hyper'' 1 \<in> set ?conds" by simp
  moreover have "\<forall>k \<in> set (registry_keys subLayers).
      variable_if (generateSubLayerVariableName k) 0 \<in> set ?conds" by auto
  moreover have "length ?conds = 1 + length (registry_keys subLayers)" by simp
  ultimately show ?thesis using rule len by blast
qed

text \<open>
  C4. The registry holds a state variable for a direct action that has a
  \<^verbatim>\<open>description\<close>, and a direct manipulator is guarded by every variable of the
  registry. The configuration \<^verbatim>\<open>{m: open("mail.txt")}\<close> has no sublayer. It compiles to
  one rule with one manipulator, which triggers on \<^verbatim>\<open>m\<close> and fires the action, but has
  two guards, \<^verbatim>\<open>hyper == 1\<close> and \<^verbatim>\<open>hyper_sublayer_m == 0\<close>, where
  \<open>1 + (number of genuine sublayers)\<close> is one: the second is a guard on the entry's own
  variable, which no manipulator ever sets.
\<close>

theorem direct_guard_counts_own_variable:
  "createHyperSubLayers
     [(''m'', Obj [(''to'', Arr [Obj [(''shell_command'', Str ''open mail.txt'')]]),
                   (''description'', Str ''Open mail.txt'')])] =
     Inr [Obj [(''description'', Str ''Hyper Key + m''),
               (''manipulators'',
                  Arr [Obj [(''to'', Arr [Obj [(''shell_command'', Str ''open mail.txt'')]]),
                            (''description'', Str ''Open mail.txt''),
                            (''type'', Str ''basic''),
                            (''from'',
                               Obj [(''key_code'', Str ''m''),
                                    (''modifiers'', Obj [(''optional'', Arr [Str ''any''])])]),
                            (''conditions'',
                               Arr [Obj [(''type'', Str ''variable_if''),
                                         (''name'', Str ''hyper''),
                                         (''value'', Num 1)],
                                    Obj [(''type'', Str ''variable_if''),
                                         (''name'', Str ''hyper_sublayer_m''),
                                         (''value'', Num 0)]])]])]]"
  by (simp add: createHyperSubLayers_def allSubLayerVariables_def is_sublayer_key_def
      get_prop_def compile_entry_def direct_manipulator_def from_any_def variable_if_def
      generateSubLayerVariableName_def)

section \<open>Command manipulators\<close>



section \<open>The manipulators of one sublayer\<close>

text \<open>
  C6. For every sublayer key and every object of commands, \<^verbatim>\<open>createHyperSubLayer\<close>
  returns a list of \<open>1 + |commands|\<close> manipulators whose first element is the toggle,
  followed by one manipulator per command key in the order of the keys. The toggle's
  \<^verbatim>\<open>to\<close> sets the sublayer's state variable to 1, its \<^verbatim>\<open>to_after_key_up\<close> sets the
  same variable to 0, and its \<^verbatim>\<open>to_if_alone\<close> sends the sublayer key with the modifiers
  left_shift, left_command, left_control, left_option.
\<close>

theorem createHyperSubLayer_shape:
  "createHyperSubLayer sublayer_key (Obj commands) vars =
     Inr (toggle_manipulator sublayer_key vars
          # map (command_manipulator (generateSubLayerVariableName sublayer_key) (Obj commands))
              (map fst commands))
   \<and> length (toggle_manipulator sublayer_key vars
          # map (command_manipulator (generateSubLayerVariableName sublayer_key) (Obj commands))
              (map fst commands)) = 1 + length commands
   \<and> get_prop (toggle_manipulator sublayer_key vars) ''to'' =
       Arr [Obj [(''set_variable'',
                  Obj [(''name'', Str (generateSubLayerVariableName sublayer_key)),
                       (''value'', Num 1)])]]
   \<and> get_prop (toggle_manipulator sublayer_key vars) ''to_after_key_up'' =
       Arr [Obj [(''set_variable'',
                  Obj [(''name'', Str (generateSubLayerVariableName sublayer_key)),
                       (''value'', Num 0)])]]
   \<and> get_prop (toggle_manipulator sublayer_key vars) ''to_if_alone'' =
       Arr [Obj [(''key_code'', Str sublayer_key),
                 (''modifiers'',
                    Arr [Str ''left_shift'', Str ''left_command'',
                         Str ''left_control'', Str ''left_option''])]]"
  by (simp add: createHyperSubLayer_def toggle_manipulator_def get_prop_Obj set_variable_def Let_def)

section \<open>The number of rules\<close>

text \<open>
  C7, as the code has it. Whenever compilation completes, the number of rules equals the
  number of top-level entries: every entry gets a rule, an entry without command keys
  included.
\<close>

theorem rule_count:
  "createHyperSubLayers subLayers = Inr rules \<Longrightarrow> length rules = length subLayers"
  using Array_map_Inr [of "compile_entry (map generateSubLayerVariableName (registry_keys subLayers))"
      subLayers rules]
  by (simp add: createHyperSubLayers_eq)

theorem rule_count_witness:
  "\<exists>rules. createHyperSubLayers example_layers = Inr rules \<and> length rules = 4"
proof -
  from example_compiles obtain rules where ok: "createHyperSubLayers example_layers = Inr rules" ..
  from rule_count [OF ok] have "length rules = 4" by (simp add: example_layers_def)
  with ok show ?thesis by blast
qed

text \<open>
  The configuration \<^verbatim>\<open>{o: {g: ...}, x: {}}\<close> compiles to two rules, one of them for the
  emptied sublayer \<^verbatim>\<open>x\<close>, although \<^verbatim>\<open>o\<close> is the only entry with a command and
  the registry holds the key \<^verbatim>\<open>o\<close> alone.
\<close>

theorem rule_count_counterexample:
  "createHyperSubLayers
     [(''o'', Obj [(''g'', Obj [(''to'', Arr [Obj [(''key_code'', Str ''a'')]])])]),
      (''x'', Obj [])] =
     Inr [Obj [(''description'', Str (''Hyper Key sublayer '' @ [CHR 0x22] @ ''o'' @ [CHR 0x22])),
               (''manipulators'',
                  Arr [toggle_manipulator ''o'' [''hyper_sublayer_o''],
                       command_manipulator ''hyper_sublayer_o''
                         (Obj [(''g'', Obj [(''to'', Arr [Obj [(''key_code'', Str ''a'')]])])])
                         ''g''])],
          Obj [(''description'', Str (''Hyper Key sublayer '' @ [CHR 0x22] @ ''x'' @ [CHR 0x22])),
               (''manipulators'', Arr [toggle_manipulator ''x'' [''hyper_sublayer_o'']])]]
   \<and> registry_keys
     [(''o'', Obj [(''g'', Obj [(''to'', Arr [Obj [(''key_code'', Str ''a'')]])])]),
      (''x'', Obj [])] = [''o'']"
  by (simp add: createHyperSubLayers_def allSubLayerVariables_def is_sublayer_key_def
      get_prop_def compile_entry_def createHyperSubLayer_def generateSubLayerVariableName_def
      registry_keys_def)

section \<open>Undefined entries\<close>

text \<open>
  C8. The filter of the registry skips an entry whose value is \<^verbatim>\<open>undefined\<close>, but the
  \<^verbatim>\<open>map\<close> over \<^verbatim>\<open>Object.entries(subLayers)\<close> evaluates \<^verbatim>\<open>"to" in value\<close> on every
  entry, which throws a TypeError on \<^verbatim>\<open>undefined\<close>: the configuration
  \<^verbatim>\<open>{o: {g: ...}, a: undefined}\<close> has the registry \<^verbatim>\<open>["hyper_sublayer_o"]\<close> and does
  not compile.
\<close>

theorem undefined_entry_throws:
  "allSubLayerVariables
     [(''o'', Obj [(''g'', Obj [(''to'', Arr [Obj [(''key_code'', Str ''a'')]])])]),
      (''a'', Undefined)]
     = Inr [''hyper_sublayer_o'']
   \<and> createHyperSubLayers
     [(''o'', Obj [(''g'', Obj [(''to'', Arr [Obj [(''key_code'', Str ''a'')]])])]),
      (''a'', Undefined)]
     = Inl TypeError"
  by (simp add: createHyperSubLayers_def allSubLayerVariables_def is_sublayer_key_def
      get_prop_def generateSubLayerVariableName_def compile_entry_def createHyperSubLayer_def)

section \<open>Keys are not validated\<close>

text \<open>
  C9, as the code has it. \<^verbatim>\<open>createHyperSubLayers\<close> does not look at the keys: the set
  of recognised keys is the type \<^verbatim>\<open>KeyCode\<close>, which exists at compile time only. For
  every configuration whose values are objects, whatever strings its keys are, compilation
  completes and emits one rule per entry, whose first manipulator triggers on the entry's
  key as it was written.
\<close>

theorem no_key_validation:
  assumes objs: "\<forall>entry \<in> set subLayers. \<exists>ps. snd entry = Obj ps"
  shows "\<exists>rules.
      createHyperSubLayers subLayers = Inr rules \<and>
      length rules = length subLayers \<and>
      (\<forall>i < length subLayers. \<exists>m ms.
          get_prop (rules ! i) ''manipulators'' = Arr (m # ms) \<and>
          get_prop m ''from'' =
            Obj [(''key_code'', Str (fst (subLayers ! i))),
                 (''modifiers'', Obj [(''optional'', Arr [Str ''any''])])])"
proof -
  from objs have "\<exists>rules. createHyperSubLayers subLayers = Inr rules"
    by (intro createHyperSubLayers_total) auto
  then obtain rules where ok: "createHyperSubLayers subLayers = Inr rules" ..
  have len: "length rules = length subLayers"
    using ok by (rule createHyperSubLayers_length)
  have "\<exists>m ms. get_prop (rules ! i) ''manipulators'' = Arr (m # ms) \<and>
          get_prop m ''from'' =
            Obj [(''key_code'', Str (fst (subLayers ! i))),
                 (''modifiers'', Obj [(''optional'', Arr [Str ''any''])])]"
    if i: "i < length subLayers" for i
  proof -
    obtain key val where entry: "subLayers ! i = (key, val)" by (cases "subLayers ! i")
    from ok i entry show ?thesis
    proof (cases rule: has_to_cases)
      case direct
      show ?thesis
        by (simp add: rule_direct [OF ok i entry direct] get_prop_rule_manipulators
            get_prop_direct_from from_any_def entry)
    next
      case sublayer
      show ?thesis
        by (simp add: rule_sublayer [OF ok i entry sublayer] get_prop_rule_manipulators
            get_prop_toggle_from from_any_def entry)
    qed
  qed
  with ok len show ?thesis by blast
qed

theorem no_key_validation_witness:
  "\<exists>rules m ms.
     createHyperSubLayers
       [(''not_a_key'', Obj [(''to'', Arr [Obj [(''key_code'', Str ''a'')]])]),
        (''neither this'', Obj [(''q'', Obj [(''to'', Arr [Obj [(''key_code'', Str ''b'')]])])])]
       = Inr rules \<and>
     length rules = 2 \<and>
     get_prop (rules ! 1) ''manipulators'' = Arr (m # ms) \<and>
     get_prop m ''from'' =
       Obj [(''key_code'', Str ''neither this''),
            (''modifiers'', Obj [(''optional'', Arr [Str ''any''])])]"
proof -
  let ?S = "[(''not_a_key'', Obj [(''to'', Arr [Obj [(''key_code'', Str ''a'')]])]),
        (''neither this'', Obj [(''q'', Obj [(''to'', Arr [Obj [(''key_code'', Str ''b'')]])])])]"
  have "\<forall>entry \<in> set ?S. \<exists>ps. snd entry = Obj ps" by simp
  from no_key_validation [OF this] obtain rules where
    ok: "createHyperSubLayers ?S = Inr rules" and len: "length rules = length ?S"
    and each: "\<forall>i < length ?S. \<exists>m ms.
          get_prop (rules ! i) ''manipulators'' = Arr (m # ms) \<and>
          get_prop m ''from'' =
            Obj [(''key_code'', Str (fst (?S ! i))),
                 (''modifiers'', Obj [(''optional'', Arr [Str ''any''])])]"
    by blast
  from each [rule_format, of 1] obtain m ms where
    "get_prop (rules ! 1) ''manipulators'' = Arr (m # ms)"
    "get_prop m ''from'' =
       Obj [(''key_code'', Str ''neither this''),
            (''modifiers'', Obj [(''optional'', Arr [Str ''any''])])]"
    by auto
  moreover from len have "length rules = 2" by simp
  ultimately show ?thesis using ok by blast
qed

text \<open>
  A rule is emitted for the key \<^verbatim>\<open>not_a_key\<close>; no error is raised.
\<close>

theorem no_key_validation_counterexample:
  "createHyperSubLayers
     [(''not_a_key'', Obj [(''to'', Arr [Obj [(''key_code'', Str ''a'')]])])] =
     Inr [Obj [(''description'', Str ''Hyper Key + not_a_key''),
               (''manipulators'',
                  Arr [Obj [(''to'', Arr [Obj [(''key_code'', Str ''a'')]]),
                            (''type'', Str ''basic''),
                            (''from'',
                               Obj [(''key_code'', Str ''not_a_key''),
                                    (''modifiers'', Obj [(''optional'', Arr [Str ''any''])])]),
                            (''conditions'',
                               Arr [Obj [(''type'', Str ''variable_if''),
                                         (''name'', Str ''hyper''),
                                         (''value'', Num 1)]])]])]]"
  by (simp add: createHyperSubLayers_def allSubLayerVariables_def is_sublayer_key_def
      get_prop_def compile_entry_def direct_manipulator_def from_any_def variable_if_def)

section \<open>The order of the guards\<close>



end
